theory Spec2Isabelle
  imports Complex_Main
begin

section \<open>Numeric values of the gravity corrections\<close>

text \<open>
  The module \<^verbatim>\<open>harmonica/gravity_corrections.py\<close> computes closed formulas with numpy.
  A Python float, and every element of a numpy float array, is modelled as a real number
  on which arithmetic is exact, extended by NaN, the one special value the code writes
  itself (\<^verbatim>\<open>np.full(shape, np.nan)\<close>). NaN is \<open>None\<close>; it propagates through arithmetic
  and every comparison with it is false.

  An array is the list of its elements in storage order; its shape is the length of that
  list. The code only uses elementwise arithmetic and boolean-mask assignment, which act
  on the flattened elements in the same way for every number of dimensions.
\<close>

type_synonym pyfloat = "real option"

datatype pyval = PyFloat pyfloat | NDArray "pyfloat list"

text \<open>
  The exceptions the functions can end with: \<^verbatim>\<open>topography.shape\<close> on a plain Python
  number, the compiler's rejection of a function body, and a power of a Python float
  beyond the range of floats.
\<close>

datatype error = AttributeError | SyntaxError | OverflowError

text \<open>A unary arithmetic expression applied to a scalar or to every element of an array.\<close>

fun elementwise :: "(real \<Rightarrow> real) \<Rightarrow> pyval \<Rightarrow> pyval" where
  "elementwise f (PyFloat x) = PyFloat (map_option f x)"
| "elementwise f (NDArray xs) = NDArray (map (map_option f) xs)"

text \<open>Multiplication of two floats: NaN if either factor is NaN.\<close>

fun fmul :: "pyfloat \<Rightarrow> pyfloat \<Rightarrow> pyfloat" where
  "fmul (Some a) (Some b) = Some (a * b)"
| "fmul _ _ = None"

text \<open>The comparison \<^verbatim>\<open>x < 0\<close> of one element; false for NaN.\<close>

fun less_zero :: "pyfloat \<Rightarrow> bool" where
  "less_zero (Some a) = (a < 0)"
| "less_zero None = False"

text \<open>
  Boolean-mask assignment of a scalar, \<^verbatim>\<open>a[mask] = v\<close>, for a mask \<open>msk\<close> of the shape
  of \<open>a\<close>: the elements under a true mask entry become \<open>v\<close>, the others stay.
\<close>

definition masked_assign :: "'a list \<Rightarrow> bool list \<Rightarrow> 'a \<Rightarrow> 'a list" where
  "masked_assign a msk v = map (\<lambda>(x, b). if b then v else x) (zip a msk)"

text \<open>\<^verbatim>\<open>np.radians\<close>: degrees to radians.\<close>

definition radians :: "real \<Rightarrow> real" where
  "radians d = d * pi / 180"


section \<open>Bouguer correction\<close>

text \<open>
  \<^verbatim>\<open>
  def bouguer_correction(topography, density_crust=2670, density_water=1040):
      oceans = np.array(topography < 0)
      continent = np.logical_not(oceans)
      density = np.full(topography.shape, np.nan, dtype="float")
      density[continent] = density_crust
      density[oceans] = -1 * (density_water - density_crust)
      bouguer = 1e5 * 2 * np.pi * GRAVITATIONAL_CONST * density * topography
      return bouguer
  \<close>
  \<^verbatim>\<open>GRAVITATIONAL_CONST\<close> is imported from \<^verbatim>\<open>harmonica/constants.py\<close>, which is not part of
  the sources at hand; it is the parameter \<open>G\<close> of the model. The two densities are floats,
  as the docstring says.

  The local variables are definitions of their own, so that properties of the masks and of
  the density array can be stated.
\<close>

definition oceans_mask :: "pyfloat list \<Rightarrow> bool list" where
  "oceans_mask topography = map less_zero topography"

definition continent_mask :: "pyfloat list \<Rightarrow> bool list" where
  "continent_mask topography = map Not (oceans_mask topography)"

definition density_array :: "pyfloat list \<Rightarrow> real \<Rightarrow> real \<Rightarrow> pyfloat list" where
  "density_array topography density_crust density_water =
     (let density = replicate (length topography) None;
          density = masked_assign density (continent_mask topography) (Some density_crust);
          density = masked_assign density (oceans_mask topography)
                      (Some (- 1 * (density_water - density_crust)))
      in density)"

definition bouguer_correction :: "real \<Rightarrow> pyval \<Rightarrow> real \<Rightarrow> real \<Rightarrow> error + pyval" where
  "bouguer_correction G topography density_crust density_water =
     (case topography of
        PyFloat h \<Rightarrow> Inl AttributeError
      | NDArray h \<Rightarrow>
          (let density = density_array h density_crust density_water;
               bouguer = map (\<lambda>(d, t). fmul (fmul (Some (100000 * 2 * pi * G)) d) t)
                             (zip density h)
           in Inr (NDArray bouguer)))"

text \<open>The default values of the keyword arguments.\<close>

definition density_crust_default :: real where
  "density_crust_default = 2670"

definition density_water_default :: real where
  "density_water_default = 1040"


section \<open>Atmospheric correction\<close>

text \<open>
  \<^verbatim>\<open>
  def atmospheric_correction(topography):
      atmos_correction = 0.874 - 9.9e-05 * topography + 3.56e-09 * topography**2
      return atmos_correction
  \<close>
\<close>

definition atmospheric_correction :: "pyval \<Rightarrow> error + pyval" where
  "atmospheric_correction topography =
     (let atmos_correction =
            elementwise (\<lambda>h. 0.874 - 0.000099 * h + 0.00000000356 * h\<^sup>2) topography
      in Inr atmos_correction)"


section \<open>Spherical cap correction\<close>

text \<open>
  \<^verbatim>\<open>
  def spherical_bouguer_cap_correction(topography):
      spher_cap_corr =  0.001464139 * topography - 3.533047e-07 * topography**2
      + 1.002709e-13 * topography**3 + 3.002407E-18 * topography**4

      return spher_cap_corr
  \<close>
  The assignment ends with its line. The next line is a statement of its own, an
  expression whose value is computed and dropped; the function returns the two terms of
  the assignment.
\<close>

definition spherical_bouguer_cap_correction :: "pyval \<Rightarrow> error + pyval" where
  "spherical_bouguer_cap_correction topography =
     (let spher_cap_corr =
            elementwise (\<lambda>h. 0.001464139 * h - 0.0000003533047 * h\<^sup>2) topography;
          dropped =
            elementwise (\<lambda>h. 0.0000000000001002709 * h ^ 3
                              + 0.000000000000000003002407 * h ^ 4) topography
      in Inr spher_cap_corr)"

text \<open>
  The formula of the docstring, for comparison:
  \<open>g = 0.001464139 h - 3.533047e-07 h\<^sup>2 + 1.002709e-13 h\<^sup>3 + 3.002407e-18 h\<^sup>4\<close>.
\<close>

definition spherical_cap_documented :: "real \<Rightarrow> real" where
  "spherical_cap_documented h =
     0.001464139 * h - 0.0000003533047 * h\<^sup>2 + 0.0000000000001002709 * h ^ 3
       + 0.000000000000000003002407 * h ^ 4"


section \<open>Free-air correction\<close>

text \<open>
  \<^verbatim>\<open>
  def free_air_correction(topography, latitude):
      free_air_corr = -(0.3087691 - 0.0004398*(np.sin(np.radians(latitude)))**2)
      * topography + 7.2125e-08 * topography**2

      return free_air_corr
  \<close>
  The assignment is complete at the end of its line, so the next line is a statement of
  its own. It begins with \<^verbatim>\<open>*\<close>, a starred expression, which the Python compiler
  rejects (``can't use starred expression here''): the definition is never created and
  no call returns a value.
\<close>

definition free_air_correction :: "pyval \<Rightarrow> pyval \<Rightarrow> error + pyval" where
  "free_air_correction topography latitude = Inl SyntaxError"

text \<open>
  The value the assignment on the first line of the body denotes; it does not mention the
  topography.
\<close>

definition free_air_first_line :: "real \<Rightarrow> real" where
  "free_air_first_line latitude =
     - (0.3087691 - 0.0004398 * (sin (radians latitude))\<^sup>2)"

text \<open>
  The formula of the docstring, for comparison:
  \<open>g = -(0.3087691 - 0.0004398 sin\<^sup>2 \<phi>) h + 7.2125e-08 h\<^sup>2\<close>.
\<close>

definition free_air_documented :: "real \<Rightarrow> real \<Rightarrow> real" where
  "free_air_documented h latitude =
     - (0.3087691 - 0.0004398 * (sin (radians latitude))\<^sup>2) * h + 0.000000072125 * h\<^sup>2"


section \<open>Eotvos correction\<close>

text \<open>
  \<^verbatim>\<open>
  def eotvos_correction(latitude, velocity, azimuth):
      eotvos_corr = 7.503 * velocity * np.sin(np.radians(azimuth)) *
      np.cos(np.radians(latitude)) + 0.004154 * velocity**2

      return eotvos_corr
  \<close>
  The first line of the body ends with the operator \<^verbatim>\<open>*\<close> outside any bracket, where
  the line and with it the statement ends: the Python parser rejects it (``invalid
  syntax''), the definition is never created and no call returns a value.
\<close>

definition eotvos_correction :: "pyval \<Rightarrow> pyval \<Rightarrow> pyval \<Rightarrow> error + pyval" where
  "eotvos_correction latitude velocity azimuth = Inl SyntaxError"

text \<open>
  The two lines of the assignment read as one expression, as brackets around them would
  make the parser read them.
\<close>

definition eotvos_joined_lines :: "real \<Rightarrow> real \<Rightarrow> real \<Rightarrow> real" where
  "eotvos_joined_lines latitude velocity azimuth =
     7.503 * velocity * sin (radians azimuth) * cos (radians latitude)
       + 0.004154 * velocity\<^sup>2"


section \<open>Point-mass forward modelling\<close>

text \<open>
  The example \<^verbatim>\<open>examples/forward/point_mass.py\<close> calls
  \<^verbatim>\<open>hm.point_mass_gravity(coordinates, points, masses, field="g_z",
  coordinate_system="cartesian")\<close>; the function itself is not among the sources.
  Coordinates are three co-indexed arrays (easting, northing, vertical).
\<close>

type_synonym point = "real \<times> real \<times> real"

type_synonym coords = "real list \<times> real list \<times> real list"

datatype kernel_error = ShapeMismatch | DegenerateGeometry

text \<open>
  Modelled from the spec: the coordinate array, an ordered tuple of co-indexed
  (easting, northing, vertical) arrays, read as the list of its points; the three arrays
  must have equal length.
\<close>

definition co_indexed :: "coords \<Rightarrow> bool" where
  "co_indexed c = (case c of (e, n, v) \<Rightarrow> length e = length n \<and> length n = length v)"

definition points_of :: "coords \<Rightarrow> point list" where
  "points_of c = (case c of (e, n, v) \<Rightarrow> zip e (zip n v))"

text \<open>
  Modelled from the spec: \<open>r\<close>, the Euclidean distance between source and observation
  point.
\<close>

definition distance :: "point \<Rightarrow> point \<Rightarrow> real" where
  "distance p q =
     (case (p, q) of ((e, n, v), (e', n', v')) \<Rightarrow>
        sqrt ((e - e')\<^sup>2 + (n - n')\<^sup>2 + (v - v')\<^sup>2))"

text \<open>
  Modelled from the spec: the term \<open>g_z = G \<cdot> m \<cdot> \<Delta>z / r\<^sup>3\<close> of one source of mass
  \<open>m\<close> at \<open>q\<close>, seen from the observation point \<open>p\<close>; \<open>\<Delta>z\<close>, the vertical offset, is
  taken from the source up to the observation point.
\<close>

definition g_z_term :: "real \<Rightarrow> point \<Rightarrow> point \<Rightarrow> real \<Rightarrow> real" where
  "g_z_term G p q m =
     (case (p, q) of ((e, n, v), (e', n', v')) \<Rightarrow> G * m * (v - v') / (distance p q) ^ 3)"

text \<open>
  Modelled from the spec: \<^verbatim>\<open>point_mass_gravity\<close> for the field \<^verbatim>\<open>g_z\<close> in Cartesian
  coordinates, the one combination of selectors the spec gives the kernel of. For each
  observation point it sums the term over all sources. Source and mass arrays of
  different lengths are a shape mismatch; an observation point that coincides with a
  source is a degenerate geometry; both fail instead of producing a field.
\<close>

definition point_mass_gravity ::
    "real \<Rightarrow> coords \<Rightarrow> coords \<Rightarrow> real list \<Rightarrow> kernel_error + real list" where
  "point_mass_gravity G coordinates points masses =
     (let observations = points_of coordinates; sources = points_of points
      in if co_indexed coordinates \<and> co_indexed points \<and> length sources = length masses
         then if list_ex (\<lambda>p. list_ex (\<lambda>q. distance p q = 0) sources) observations
              then Inl DegenerateGeometry
              else Inr (map (\<lambda>p. sum_list (map (\<lambda>(q, m). g_z_term G p q m)
                                                (zip sources masses)))
                            observations)
         else Inl ShapeMismatch)"


section \<open>Special values, exceptions and arrays in memory\<close>

text \<open>
  The definitions above give the value of each formula, with every number a real number
  or NaN. Three things they leave out decide which calls raise, where NaN can appear and
  what a call does to the arrays it is given: a float can be an infinity; Python's
  \<^verbatim>\<open>**\<close> on a float raises OverflowError when the result is beyond the range of floats;
  and a numpy array is an object in memory that a statement may write to in place. The
  three functions whose bodies compile are therefore modelled a second time, statement
  by statement, with these three things in; the lemmas \<open>bouguer_correction_call_refines\<close>,
  \<open>atmospheric_correction_call_refines\<close> and \<open>spherical_call_refines\<close> below show that
  on the inputs of the first model the second computes the same values.

  A float is NaN, a finite real number, or one of the two infinities. Arithmetic on finite
  numbers stays exact; where a special value takes part it follows IEEE 754:
  NaN propagates, \<open>\<infinity> - \<infinity>\<close> and \<open>0 \<cdot> \<infinity>\<close> are NaN, and the sign of an infinite product
  is the product of the signs.
\<close>

datatype float64 = NaN | Finite real | PosInf | NegInf

fun is_finite :: "float64 \<Rightarrow> bool" where
  "is_finite (Finite a) = True"
| "is_finite _ = False"

text \<open>The comparison \<^verbatim>\<open>x < 0\<close>: true for negative numbers and \<open>-\<infinity>\<close>, false for NaN.\<close>

fun less_zero64 :: "float64 \<Rightarrow> bool" where
  "less_zero64 (Finite a) = (a < 0)"
| "less_zero64 NegInf = True"
| "less_zero64 _ = False"

fun f_neg :: "float64 \<Rightarrow> float64" where
  "f_neg NaN = NaN"
| "f_neg (Finite a) = Finite (- a)"
| "f_neg PosInf = NegInf"
| "f_neg NegInf = PosInf"

fun f_add :: "float64 \<Rightarrow> float64 \<Rightarrow> float64" where
  "f_add NaN y = NaN"
| "f_add x NaN = NaN"
| "f_add (Finite a) (Finite b) = Finite (a + b)"
| "f_add (Finite a) y = y"
| "f_add x (Finite b) = x"
| "f_add PosInf PosInf = PosInf"
| "f_add NegInf NegInf = NegInf"
| "f_add PosInf NegInf = NaN"
| "f_add NegInf PosInf = NaN"

definition f_sub :: "float64 \<Rightarrow> float64 \<Rightarrow> float64" where
  "f_sub x y = f_add x (f_neg y)"

text \<open>The product of the finite number \<open>a\<close> and \<open>+\<infinity>\<close>.\<close>

definition signed_inf :: "real \<Rightarrow> float64" where
  "signed_inf a = (if a = 0 then NaN else if 0 < a then PosInf else NegInf)"

fun f_mul :: "float64 \<Rightarrow> float64 \<Rightarrow> float64" where
  "f_mul NaN y = NaN"
| "f_mul x NaN = NaN"
| "f_mul (Finite a) (Finite b) = Finite (a * b)"
| "f_mul (Finite a) PosInf = signed_inf a"
| "f_mul (Finite a) NegInf = signed_inf (- a)"
| "f_mul PosInf (Finite b) = signed_inf b"
| "f_mul NegInf (Finite b) = signed_inf (- b)"
| "f_mul PosInf PosInf = PosInf"
| "f_mul NegInf NegInf = PosInf"
| "f_mul PosInf NegInf = NegInf"
| "f_mul NegInf PosInf = NegInf"

text \<open>
  The power \<^verbatim>\<open>x**n\<close> with a positive integer exponent, as numpy computes it on the
  elements of an array: it never raises, an infinity stays an infinity with the sign of
  the power.
\<close>

primrec f_pow :: "float64 \<Rightarrow> nat \<Rightarrow> float64" where
  "f_pow x 0 = Finite 1"
| "f_pow x (Suc n) = f_mul x (f_pow x n)"

text \<open>
  A real number overflows when rounding it to the nearest float gives an infinity: from
  \<open>2\<^sup>1\<^sup>0\<^sup>2\<^sup>4 - 2\<^sup>9\<^sup>7\<^sup>0\<close> on, half a unit in the last place above the largest float,
  about \<open>1.797e308\<close>.
\<close>

definition overflows :: "real \<Rightarrow> bool" where
  "overflows r = (2 ^ 1024 - 2 ^ 970 \<le> \<bar>r\<bar>)"

text \<open>
  The power \<^verbatim>\<open>x**n\<close> of a plain Python float: OverflowError when the power of a finite
  number overflows, the value of \<open>f_pow\<close> otherwise (NaN and the infinities do not raise).
\<close>

definition pow_overflows :: "float64 \<Rightarrow> nat \<Rightarrow> bool" where
  "pow_overflows x n = (case x of Finite a \<Rightarrow> overflows (a ^ n) | _ \<Rightarrow> False)"

definition py_pow :: "float64 \<Rightarrow> nat \<Rightarrow> error + float64" where
  "py_pow x n = (if pow_overflows x n then Inl OverflowError else Inr (f_pow x n))"

text \<open>The numbers of the first model among the floats.\<close>

fun ieee :: "pyfloat \<Rightarrow> float64" where
  "ieee None = NaN"
| "ieee (Some r) = Finite r"

text \<open>
  The memory is the list of the float arrays allocated so far; the address of an array
  is its index, and the functions are applied to allocated addresses only
  (\<open>a < length h\<close>). A new array gets the next address; an assignment through a mask
  replaces the array at its address. Only the arrays that are written to in place or
  returned are kept in the memory: a boolean mask or an intermediate product is created,
  read and never written to, and is a plain value here.

  An argument is a plain Python float, passed by value, or an array, passed by address.
  A call returns an exception, or the memory after the call together with its result.
\<close>

type_synonym heap = "float64 list list"

datatype pyobj = FloatObj float64 | ArrayObj nat

definition alloc :: "heap \<Rightarrow> float64 list \<Rightarrow> heap \<times> nat" where
  "alloc h xs = (h @ [xs], length h)"

text \<open>The two masks of \<^verbatim>\<open>bouguer_correction\<close>, on arrays of floats.\<close>

definition oceans_mask64 :: "float64 list \<Rightarrow> bool list" where
  "oceans_mask64 topography = map less_zero64 topography"

definition continent_mask64 :: "float64 list \<Rightarrow> bool list" where
  "continent_mask64 topography = map Not (oceans_mask64 topography)"

text \<open>
  \<^verbatim>\<open>bouguer_correction\<close>, statement by statement: the masks; \<^verbatim>\<open>np.full\<close> allocates the
  density array, filled with NaN; the two masked assignments write to it in place; the
  product is a new array, which is returned. On a plain Python float the masks are
  computed and \<^verbatim>\<open>topography.shape\<close> raises.
\<close>

definition bouguer_correction_call ::
    "real \<Rightarrow> heap \<Rightarrow> pyobj \<Rightarrow> real \<Rightarrow> real \<Rightarrow> error + heap \<times> pyobj" where
  "bouguer_correction_call G h topography density_crust density_water =
     (case topography of
        FloatObj x \<Rightarrow> Inl AttributeError
      | ArrayObj a \<Rightarrow>
          (let oceans = oceans_mask64 (h ! a);
               continent = continent_mask64 (h ! a);
               (h1, density) = alloc h (replicate (length (h ! a)) NaN);
               h2 = h1[density := masked_assign (h1 ! density) continent
                                    (Finite density_crust)];
               h3 = h2[density := masked_assign (h2 ! density) oceans
                                    (Finite (- 1 * (density_water - density_crust)))];
               (h4, bouguer) =
                 alloc h3 (map (\<lambda>(d, t). f_mul (f_mul (Finite (100000 * 2 * pi * G)) d) t)
                               (zip (h3 ! density) (h3 ! a)))
           in Inr (h4, ArrayObj bouguer)))"

text \<open>
  The expression of \<^verbatim>\<open>atmospheric_correction\<close>, given the topography and its square.
  On a Python float the square is \<open>py_pow\<close>, which may raise; on an array it is taken
  element by element and the result is a new array.
\<close>

definition atmos_expr :: "float64 \<Rightarrow> float64 \<Rightarrow> float64" where
  "atmos_expr topography squared =
     f_add (f_sub (Finite 0.874) (f_mul (Finite 0.000099) topography))
           (f_mul (Finite 0.00000000356) squared)"

definition atmospheric_correction_call :: "heap \<Rightarrow> pyobj \<Rightarrow> error + heap \<times> pyobj" where
  "atmospheric_correction_call h topography =
     (case topography of
        FloatObj x \<Rightarrow>
          (case py_pow x 2 of
             Inl e \<Rightarrow> Inl e
           | Inr squared \<Rightarrow> Inr (h, FloatObj (atmos_expr x squared)))
      | ArrayObj a \<Rightarrow>
          (let (h1, atmos_correction) =
                 alloc h (map (\<lambda>x. atmos_expr x (f_pow x 2)) (h ! a))
           in Inr (h1, ArrayObj atmos_correction)))"

text \<open>
  The two statements of \<^verbatim>\<open>spherical_bouguer_cap_correction\<close>: the assignment, and the
  expression that is evaluated and dropped. On a Python float the dropped expression can
  still raise, through its powers.
\<close>

definition spher_expr :: "float64 \<Rightarrow> float64 \<Rightarrow> float64" where
  "spher_expr topography squared =
     f_sub (f_mul (Finite 0.001464139) topography) (f_mul (Finite 0.0000003533047) squared)"

definition dropped_expr :: "float64 \<Rightarrow> float64 \<Rightarrow> float64" where
  "dropped_expr cubed fourth =
     f_add (f_mul (Finite 0.0000000000001002709) cubed)
           (f_mul (Finite 0.000000000000000003002407) fourth)"

definition spherical_bouguer_cap_correction_call ::
    "heap \<Rightarrow> pyobj \<Rightarrow> error + heap \<times> pyobj" where
  "spherical_bouguer_cap_correction_call h topography =
     (case topography of
        FloatObj x \<Rightarrow>
          (case py_pow x 2 of
             Inl e \<Rightarrow> Inl e
           | Inr squared \<Rightarrow>
               (let spher_cap_corr = spher_expr x squared
                in case py_pow x 3 of
                     Inl e \<Rightarrow> Inl e
                   | Inr cubed \<Rightarrow>
                       (case py_pow x 4 of
                          Inl e \<Rightarrow> Inl e
                        | Inr fourth \<Rightarrow>
                            (let dropped = dropped_expr cubed fourth
                             in Inr (h, FloatObj spher_cap_corr)))))
      | ArrayObj a \<Rightarrow>
          (let (h1, spher_cap_corr) =
                 alloc h (map (\<lambda>x. spher_expr x (f_pow x 2)) (h ! a));
               dropped = map (\<lambda>x. dropped_expr (f_pow x 3) (f_pow x 4)) (h1 ! a)
           in Inr (h1, ArrayObj spher_cap_corr)))"


section \<open>Properties of the array operations\<close>

lemma length_masked_assign:
  "length (masked_assign a msk v) = min (length a) (length msk)"
  by (simp add: masked_assign_def)

lemma nth_masked_assign:
  "i < length a \<Longrightarrow> i < length msk \<Longrightarrow>
   masked_assign a msk v ! i = (if msk ! i then v else a ! i)"
  by (simp add: masked_assign_def)

lemma length_oceans_mask: "length (oceans_mask xs) = length xs"
  by (simp add: oceans_mask_def)

lemma length_continent_mask: "length (continent_mask xs) = length xs"
  by (simp add: continent_mask_def oceans_mask_def)

lemma nth_continent_mask:
  "i < length xs \<Longrightarrow> continent_mask xs ! i = (\<not> oceans_mask xs ! i)"
  by (simp add: continent_mask_def oceans_mask_def)

lemma length_density_array: "length (density_array xs dc dw) = length xs"
  by (simp add: density_array_def Let_def length_masked_assign length_oceans_mask
      length_continent_mask)

text \<open>After the two masked assignments every element of the density array is set.\<close>

lemma nth_density_array:
  assumes "i < length xs"
  shows "density_array xs dc dw ! i
         = Some (if oceans_mask xs ! i then - 1 * (dw - dc) else dc)"
  using assms
  by (simp add: density_array_def Let_def nth_masked_assign length_masked_assign
      length_oceans_mask length_continent_mask nth_continent_mask)

lemma bouguer_elements:
  "map (\<lambda>(d, t). fmul (fmul (Some c) d) t) (zip (density_array xs dc dw) xs)
   = map (\<lambda>x. fmul (Some (c * (if less_zero x then - 1 * (dw - dc) else dc))) x) xs"
  by (rule nth_equalityI)
     (simp_all add: length_density_array nth_density_array oceans_mask_def)

text \<open>The Bouguer correction of an array, element by element.\<close>

lemma bouguer_correction_NDArray:
  "bouguer_correction G (NDArray xs) dc dw
   = Inr (NDArray (map (\<lambda>x. fmul (Some (100000 * 2 * pi * G
            * (if less_zero x then - 1 * (dw - dc) else dc))) x) xs))"
  by (simp add: bouguer_correction_def bouguer_elements)

lemma bouguer_element_land:
  "0 \<le> h \<Longrightarrow>
   fmul (Some (c * (if less_zero (Some h) then - 1 * (dw - dc) else dc))) (Some h)
   = Some (c * dc * h)"
  by simp

lemma bouguer_element_ocean:
  "h < 0 \<Longrightarrow>
   fmul (Some (c * (if less_zero (Some h) then - 1 * (dw - dc) else dc))) (Some h)
   = Some (c * (dw - dc) * \<bar>h\<bar>)"
  by (simp add: algebra_simps)

lemma bouguer_correction_nth:
  assumes "i < length topography" and "topography ! i = Some h"
  shows "\<exists>bouguer.
           bouguer_correction G (NDArray topography) dc dw = Inr (NDArray bouguer)
         \<and> length bouguer = length topography
         \<and> bouguer ! i =
             Some (if 0 \<le> h then 100000 * 2 * pi * G * dc * h
                   else 100000 * 2 * pi * G * (dw - dc) * \<bar>h\<bar>)"
proof -
  let ?f = "\<lambda>x. fmul (Some (100000 * 2 * pi * G
            * (if less_zero x then - 1 * (dw - dc) else dc))) x"
  have "map ?f topography ! i = ?f (Some h)"
    using assms by simp
  also have "\<dots> = Some (if 0 \<le> h then 100000 * 2 * pi * G * dc * h
                   else 100000 * 2 * pi * G * (dw - dc) * \<bar>h\<bar>)"
    using bouguer_element_land [of h "100000 * 2 * pi * G" dw dc]
      bouguer_element_ocean [of h "100000 * 2 * pi * G" dw dc]
    by (cases "0 \<le> h") (simp_all del: less_zero.simps fmul.simps)
  finally show ?thesis
    by (simp add: bouguer_correction_NDArray)
qed

text \<open>On an array without NaN the correction is one real function of each element.\<close>

lemma bouguer_correction_reals:
  "bouguer_correction G (NDArray (map Some hs)) dc dw
   = Inr (NDArray (map (\<lambda>h. Some (if h < 0 then 100000 * (2 * pi * G * (dc - dw)) * h
                                    else 100000 * (2 * pi * G * dc) * h)) hs))"
  by (simp add: bouguer_correction_NDArray o_def algebra_simps)

lemma piecewise_linear_mono:
  fixes a b :: real
  assumes "0 \<le> a" "0 \<le> b" "h1 \<le> h2"
  shows "(if h1 < 0 then a * h1 else b * h1) \<le> (if h2 < 0 then a * h2 else b * h2)"
proof (cases "h1 < 0"; cases "h2 < 0")
  assume "h1 < 0" "\<not> h2 < 0"
  then have "a * h1 \<le> 0" "0 \<le> b * h2"
    using assms by (simp_all add: mult_nonneg_nonpos)
  with \<open>h1 < 0\<close> \<open>\<not> h2 < 0\<close> show ?thesis by simp
qed (use assms in \<open>simp_all add: mult_left_mono\<close>)

lemma piecewise_linear_continuous:
  fixes a b :: real
  shows "continuous_on UNIV (\<lambda>h. if h < 0 then a * h else b * h)"
proof -
  have "(\<lambda>h. if h < 0 then a * h else b * h) = (\<lambda>h. a * min h 0 + b * max h 0)"
    by (auto simp: fun_eq_iff min_def max_def)
  moreover have "continuous_on UNIV (\<lambda>h. a * min h 0 + b * max h 0)"
    by (intro continuous_intros)
  ultimately show ?thesis
    by (simp only:)
qed

text \<open>The kernel term is odd in the mass, and so is the sum over the sources.\<close>

lemma g_z_term_minus: "g_z_term G p q (- m) = - g_z_term G p q m"
  by (simp add: g_z_term_def split: prod.splits)

lemma sum_list_minus_masses:
  fixes f :: "'a \<Rightarrow> real \<Rightarrow> real"
  assumes "\<And>q m. f q (- m) = - f q m"
  shows "sum_list (map (\<lambda>(q, m). f q m) (zip sources (map uminus masses)))
         = - sum_list (map (\<lambda>(q, m). f q m) (zip sources masses))"
proof (induction sources arbitrary: masses)
  case Nil
  then show ?case by simp
next
  case (Cons q sources)
  then show ?case by (cases masses) (simp_all add: assms)
qed


section \<open>Properties of the calls\<close>

lemma length_oceans_mask64: "length (oceans_mask64 xs) = length xs"
  by (simp add: oceans_mask64_def)

lemma length_continent_mask64: "length (continent_mask64 xs) = length xs"
  by (simp add: continent_mask64_def oceans_mask64_def)

lemma nth_continent_mask64:
  "i < length xs \<Longrightarrow> continent_mask64 xs ! i = (\<not> oceans_mask64 xs ! i)"
  by (simp add: continent_mask64_def oceans_mask64_def)

text \<open>The density array after the two masked assignments.\<close>

lemma density_assignments:
  "masked_assign (masked_assign (replicate (length t) NaN) (continent_mask64 t) u)
      (oceans_mask64 t) v
   = map (\<lambda>x. if less_zero64 x then v else u) t"
  by (rule nth_equalityI)
     (simp_all add: length_masked_assign nth_masked_assign length_oceans_mask64
        length_continent_mask64 nth_continent_mask64, simp add: oceans_mask64_def)

text \<open>
  The memory after a call of \<^verbatim>\<open>bouguer_correction\<close> on an array: the old memory, the
  density array and the returned array.
\<close>

lemma bouguer_correction_call_array:
  assumes "a < length h"
  shows "bouguer_correction_call G h (ArrayObj a) dc dw
         = Inr (h @ [map (\<lambda>x. if less_zero64 x then Finite (- 1 * (dw - dc)) else Finite dc)
                         (h ! a),
                     map (\<lambda>x. f_mul (f_mul (Finite (100000 * 2 * pi * G))
                                (if less_zero64 x then Finite (- 1 * (dw - dc)) else Finite dc)) x)
                         (h ! a)],
                ArrayObj (Suc (length h)))"
  using assms
  by (simp add: bouguer_correction_call_def alloc_def Let_def nth_append density_assignments
      zip_map1 zip_same_conv_map o_def)

lemma nth_append_two:
  "(h @ [d, b]) ! length h = d" "(h @ [d, b]) ! Suc (length h) = b"
  by (simp_all add: nth_append)

lemma finite_product_not_nan:
  "is_finite x \<Longrightarrow> f_mul (f_mul (Finite c) (if b then Finite u else Finite v)) x \<noteq> NaN"
  by (cases x) simp_all

lemma f_pow_Finite: "f_pow (Finite a) n = Finite (a ^ n)"
  by (induction n) simp_all

text \<open>A power that overflows keeps overflowing with a larger exponent.\<close>

lemma overflows_power_mono:
  assumes "overflows (a ^ m)" and "m \<le> n" and "0 < m"
  shows "overflows (a ^ n)"
proof -
  have big: "(1::real) \<le> 2 ^ 1024 - 2 ^ 970" by simp
  from assms(1) have le: "2 ^ 1024 - 2 ^ 970 \<le> \<bar>a\<bar> ^ m"
    by (simp add: overflows_def power_abs)
  with big have "1 \<le> \<bar>a\<bar> ^ m" by linarith
  then have "1 \<le> \<bar>a\<bar>"
    using assms(3) by (metis abs_ge_zero linorder_not_le power_less_one_iff)
  then have "\<bar>a\<bar> ^ m \<le> \<bar>a\<bar> ^ n"
    using assms(2) by (rule power_increasing[rotated])
  with le show ?thesis
    by (simp add: overflows_def power_abs)
qed

lemma pow_overflows_mono:
  "pow_overflows x m \<Longrightarrow> m \<le> n \<Longrightarrow> 0 < m \<Longrightarrow> pow_overflows x n"
  by (cases x) (auto simp: pow_overflows_def intro: overflows_power_mono)

lemma in_float_range:
  assumes "\<bar>v\<bar> \<le> 10 ^ 77"
  shows "\<not> pow_overflows (Finite v) 4" and "\<not> pow_overflows (Finite v) 2"
proof -
  have "\<bar>v\<bar> ^ 4 \<le> (10 ^ 77) ^ 4"
    using assms by (intro power_mono) simp_all
  moreover have "((10::real) ^ 77) ^ 4 < 2 ^ 1024 - 2 ^ 970" by simp
  ultimately show "\<not> pow_overflows (Finite v) 4"
    by (simp add: pow_overflows_def overflows_def power_abs)
  then show "\<not> pow_overflows (Finite v) 2"
    using pow_overflows_mono [of "Finite v" 2 4] by auto
qed

lemma atmospheric_correction_call_array:
  "atmospheric_correction_call h (ArrayObj a)
   = Inr (h @ [map (\<lambda>x. atmos_expr x (f_pow x 2)) (h ! a)], ArrayObj (length h))"
  by (simp add: atmospheric_correction_call_def alloc_def)

lemma atmospheric_correction_call_float:
  "atmospheric_correction_call h (FloatObj x)
   = (if pow_overflows x 2 then Inl OverflowError
      else Inr (h, FloatObj (atmos_expr x (f_pow x 2))))"
  by (simp add: atmospheric_correction_call_def py_pow_def)

lemma spherical_call_array:
  "spherical_bouguer_cap_correction_call h (ArrayObj a)
   = Inr (h @ [map (\<lambda>x. spher_expr x (f_pow x 2)) (h ! a)], ArrayObj (length h))"
  by (simp add: spherical_bouguer_cap_correction_call_def alloc_def Let_def)

text \<open>
  On a Python float the spherical cap correction raises exactly when the fourth power,
  in the dropped expression, overflows: the square and the cube overflow later.
\<close>

lemma spherical_call_float:
  "spherical_bouguer_cap_correction_call h (FloatObj x)
   = (if pow_overflows x 4 then Inl OverflowError
      else Inr (h, FloatObj (spher_expr x (f_pow x 2))))"
proof (cases "pow_overflows x 4")
  case True
  then show ?thesis
    by (simp add: spherical_bouguer_cap_correction_call_def py_pow_def Let_def)
next
  case False
  then have "\<not> pow_overflows x 2" "\<not> pow_overflows x 3"
    using pow_overflows_mono [of x 2 4] pow_overflows_mono [of x 3 4] by auto
  with False show ?thesis
    by (simp add: spherical_bouguer_cap_correction_call_def py_pow_def Let_def)
qed

text \<open>
  The two models agree: on an array of real numbers and NaN, and on a Python float whose
  square does not overflow, a call computes the values of the first model.
\<close>

lemma less_zero64_ieee: "less_zero64 (ieee x) = less_zero x"
  by (cases x) simp_all

lemma f_mul_ieee: "f_mul (ieee x) (ieee y) = ieee (fmul x y)"
  by (cases x; cases y) simp_all

lemma atmos_expr_ieee:
  "atmos_expr (ieee x) (f_pow (ieee x) 2)
   = ieee (map_option (\<lambda>h. 0.874 - 0.000099 * h + 0.00000000356 * h\<^sup>2) x)"
  by (cases x) (simp_all add: atmos_expr_def f_sub_def f_pow_Finite numeral_2_eq_2)

lemma spher_expr_ieee:
  "spher_expr (ieee x) (f_pow (ieee x) 2)
   = ieee (map_option (\<lambda>h. 0.001464139 * h - 0.0000003533047 * h\<^sup>2) x)"
  by (cases x) (simp_all add: spher_expr_def f_sub_def f_pow_Finite numeral_2_eq_2)

lemma bouguer_correction_call_refines:
  assumes "a < length h" and "h ! a = map ieee xs"
    and "bouguer_correction G (NDArray xs) dc dw = Inr (NDArray ys)"
  shows "\<exists>density.
           bouguer_correction_call G h (ArrayObj a) dc dw
             = Inr (h @ [density, map ieee ys], ArrayObj (Suc (length h)))"
proof -
  have "ys = map (\<lambda>x. fmul (Some (100000 * 2 * pi * G
            * (if less_zero x then - 1 * (dw - dc) else dc))) x) xs"
    using assms(3) by (simp add: bouguer_correction_NDArray)
  moreover have "f_mul (f_mul (Finite c) (if less_zero x then Finite u else Finite v)) (ieee x)
        = ieee (fmul (Some (c * (if less_zero x then u else v))) x)" for c u v x
    by (cases x) simp_all
  ultimately show ?thesis
    using assms(1,2)
    by (simp add: bouguer_correction_call_array o_def less_zero64_ieee)
qed

lemma atmospheric_correction_call_refines:
  assumes "h ! a = map ieee xs"
    and "atmospheric_correction (NDArray xs) = Inr (NDArray ys)"
  shows "atmospheric_correction_call h (ArrayObj a)
         = Inr (h @ [map ieee ys], ArrayObj (length h))"
  using assms
  by (auto simp: atmospheric_correction_call_array atmospheric_correction_def o_def
      atmos_expr_ieee)

lemma atmospheric_correction_call_refines_float:
  assumes "\<not> pow_overflows (ieee x) 2"
    and "atmospheric_correction (PyFloat x) = Inr (PyFloat y)"
  shows "atmospheric_correction_call h (FloatObj (ieee x)) = Inr (h, FloatObj (ieee y))"
  using assms
  by (auto simp: atmospheric_correction_call_float atmospheric_correction_def atmos_expr_ieee)

lemma spherical_call_refines:
  assumes "h ! a = map ieee xs"
    and "spherical_bouguer_cap_correction (NDArray xs) = Inr (NDArray ys)"
  shows "spherical_bouguer_cap_correction_call h (ArrayObj a)
         = Inr (h @ [map ieee ys], ArrayObj (length h))"
  using assms
  by (auto simp: spherical_call_array spherical_bouguer_cap_correction_def o_def
      spher_expr_ieee Let_def)


section \<open>The claims\<close>

text \<open>
  Claim C1. For every topography value \<open>h\<close>, \<^verbatim>\<open>spherical_bouguer_cap_correction(h)\<close>
  is to be the documented quartic polynomial. The function returns the first two terms
  only: its value is the documented polynomial less the cubic and the quartic term. At
  \<open>h = 1000\<close> it returns 1.1108343 where the documented polynomial is 1.110937573307,
  a difference of about \<open>1.03e-4\<close>.
\<close>

theorem spherical_cap_drops_terms:
  "spherical_bouguer_cap_correction (PyFloat (Some h))
     = Inr (PyFloat (Some (spherical_cap_documented h
              - (0.0000000000001002709 * h ^ 3 + 0.000000000000000003002407 * h ^ 4))))
   \<and> spherical_bouguer_cap_correction (PyFloat (Some 1000)) = Inr (PyFloat (Some 1.1108343))
   \<and> spherical_cap_documented 1000 = 1.110937573307
   \<and> spherical_cap_documented 1000 - 1.1108343 = 0.000103273307"
  by (simp add: spherical_bouguer_cap_correction_def spherical_cap_documented_def)

text \<open>
  Claim C2. For every topography \<open>h\<close> and latitude \<open>\<phi>\<close>, \<^verbatim>\<open>free_air_correction\<close> is to
  be the documented expression, which is 0 at \<open>h = 0\<close>. The body does not compile, so no
  call returns a value; and the one complete assignment of the body denotes
  \<open>-0.3087691\<close> at latitude 0, whatever the topography, where the documented expression
  is \<open>-308.696975\<close> at \<open>h = 1000\<close> and 0 at \<open>h = 0\<close>.
\<close>

theorem free_air_not_documented:
  "free_air_correction topography latitude = Inl SyntaxError
   \<and> free_air_first_line 0 = - 0.3087691
   \<and> free_air_documented 1000 0 = - 308.696975
   \<and> free_air_documented 0 \<phi> = 0"
  by (simp add: free_air_correction_def free_air_first_line_def free_air_documented_def
      radians_def)

text \<open>
  Claim C3. \<^verbatim>\<open>bouguer_correction\<close> branches on the sign of each element \<open>h\<close> of the
  topography: a land element (\<open>h \<ge> 0\<close>) yields \<open>1e5 \<cdot> 2\<pi>G \<cdot> density_crust \<cdot> h\<close>, an ocean
  element (\<open>h < 0\<close>) yields \<open>1e5 \<cdot> 2\<pi>G \<cdot> (density_water - density_crust) \<cdot> |h|\<close>; for
  \<open>h = 0\<close> the output is 0; and with the default densities 2670 and 1040 the ocean
  branch uses the density contrast 1630, with the sign of the documented formula
  \<open>2\<pi>G (\<rho>\<^sub>w - \<rho>\<^sub>c) |h|\<close>.
\<close>

theorem bouguer_correction_branches:
  assumes "i < length topography" and "topography ! i = Some h"
  shows "(\<exists>bouguer.
           bouguer_correction G (NDArray topography) density_crust density_water
             = Inr (NDArray bouguer)
         \<and> length bouguer = length topography
         \<and> bouguer ! i =
             Some (if 0 \<le> h then 100000 * 2 * pi * G * density_crust * h
                   else 100000 * 2 * pi * G * (density_water - density_crust) * \<bar>h\<bar>)
         \<and> (h = 0 \<longrightarrow> bouguer ! i = Some 0))
       \<and> (h < 0 \<longrightarrow>
             density_array topography density_crust_default density_water_default ! i
               = Some 1630)
       \<and> (\<exists>bouguer.
             bouguer_correction G (NDArray topography) density_crust_default
                 density_water_default
               = Inr (NDArray bouguer)
             \<and> (h < 0 \<longrightarrow>
                   bouguer ! i = Some (- (100000 * 2 * pi * G * 1630 * \<bar>h\<bar>))))"
proof (intro conjI)
  from bouguer_correction_nth [OF assms, of G density_crust density_water]
  obtain b where b:
    "bouguer_correction G (NDArray topography) density_crust density_water
       = Inr (NDArray b)"
    "length b = length topography"
    "b ! i = Some (if 0 \<le> h then 100000 * 2 * pi * G * density_crust * h
                   else 100000 * 2 * pi * G * (density_water - density_crust) * \<bar>h\<bar>)"
    by blast
  from b(3) have "h = 0 \<longrightarrow> b ! i = Some 0" by simp
  with b show "\<exists>bouguer.
           bouguer_correction G (NDArray topography) density_crust density_water
             = Inr (NDArray bouguer)
         \<and> length bouguer = length topography
         \<and> bouguer ! i =
             Some (if 0 \<le> h then 100000 * 2 * pi * G * density_crust * h
                   else 100000 * 2 * pi * G * (density_water - density_crust) * \<bar>h\<bar>)
         \<and> (h = 0 \<longrightarrow> bouguer ! i = Some 0)"
    by blast
next
  show "h < 0 \<longrightarrow>
          density_array topography density_crust_default density_water_default ! i
            = Some 1630"
    using assms
    by (simp add: nth_density_array oceans_mask_def density_crust_default_def
        density_water_default_def)
next
  from bouguer_correction_nth [OF assms, of G density_crust_default density_water_default]
  obtain b where b:
    "bouguer_correction G (NDArray topography) density_crust_default density_water_default
       = Inr (NDArray b)"
    "b ! i = Some (if 0 \<le> h then 100000 * 2 * pi * G * density_crust_default * h
                   else 100000 * 2 * pi * G
                          * (density_water_default - density_crust_default) * \<bar>h\<bar>)"
    by blast
  from b(2) have "h < 0 \<longrightarrow> b ! i = Some (- (100000 * 2 * pi * G * 1630 * \<bar>h\<bar>))"
    by (simp add: density_crust_default_def density_water_default_def)
  with b(1) show "\<exists>bouguer.
             bouguer_correction G (NDArray topography) density_crust_default
                 density_water_default
               = Inr (NDArray bouguer)
             \<and> (h < 0 \<longrightarrow>
                   bouguer ! i = Some (- (100000 * 2 * pi * G * 1630 * \<bar>h\<bar>)))"
    by blast
qed

text \<open>
  The theorem at the array \<open>[100, 0, -200]\<close>, with the default densities and
  \<open>G = 6.673e-11\<close>: at its ocean element, at its element 0 and at its land element.
\<close>

theorem bouguer_correction_branches_witness:
  "(2::nat) < length [Some 100, Some 0, Some (- 200 :: real)]
   \<and> [Some 100, Some 0, Some (- 200 :: real)] ! 2 = Some (- 200)
   \<and> (\<exists>bouguer.
         bouguer_correction 0.00000000006673 (NDArray [Some 100, Some 0, Some (- 200)])
             density_crust_default density_water_default
           = Inr (NDArray bouguer)
         \<and> bouguer ! 2 = Some (- (100000 * 2 * pi * 0.00000000006673 * 1630 * 200)))
   \<and> (\<exists>bouguer.
         bouguer_correction 0.00000000006673 (NDArray [Some 100, Some 0, Some (- 200)])
             2670 1040
           = Inr (NDArray bouguer)
         \<and> bouguer ! 1 = Some 0)
   \<and> (\<exists>bouguer.
         bouguer_correction 0.00000000006673 (NDArray [Some 100, Some 0, Some (- 200)])
             2670 1040
           = Inr (NDArray bouguer)
         \<and> bouguer ! 0 = Some (100000 * 2 * pi * 0.00000000006673 * 2670 * 100))"
  using bouguer_correction_branches
    [of 2 "[Some 100, Some 0, Some (- 200)]" "- 200" "0.00000000006673" 2670 1040]
    bouguer_correction_branches
    [of 1 "[Some 100, Some 0, Some (- 200)]" 0 "0.00000000006673" 2670 1040]
    bouguer_correction_branches
    [of 0 "[Some 100, Some 0, Some (- 200)]" 100 "0.00000000006673" 2670 1040]
  by simp blast

text \<open>
  Claim C4. For every latitude and azimuth, the Eotvos correction at velocity 0 is to
  be 0. The body does not compile, so no call returns a value, at velocity 0 as at any
  other; the expression its two lines spell out together is 0 at velocity 0.
\<close>

theorem eotvos_correction_no_value:
  "eotvos_correction latitude (PyFloat (Some 0)) azimuth = Inl SyntaxError
   \<and> eotvos_joined_lines \<phi> 0 \<alpha> = 0"
  by (simp add: eotvos_correction_def eotvos_joined_lines_def)

text \<open>
  Claim C5. For every topography value \<open>h\<close>, scalar or element of an array, the
  atmospheric correction is the quadratic polynomial
  \<open>0.874 - 9.9e-5 h + 3.56e-9 h\<^sup>2\<close>; a NaN element stays NaN; and at \<open>h = 0\<close> the
  correction is exactly 0.874 mGal.
\<close>

theorem atmospheric_correction_polynomial:
  "atmospheric_correction (PyFloat (Some h))
     = Inr (PyFloat (Some (0.874 - 0.000099 * h + 0.00000000356 * h\<^sup>2)))
   \<and> atmospheric_correction (NDArray hs)
     = Inr (NDArray (map (map_option (\<lambda>h. 0.874 - 0.000099 * h + 0.00000000356 * h\<^sup>2)) hs))
   \<and> atmospheric_correction (PyFloat (Some 0)) = Inr (PyFloat (Some 0.874))"
  by (simp add: atmospheric_correction_def)

text \<open>
  Claim C6, as stated: every correction function accepts a plain scalar and returns a
  value. It fails for \<^verbatim>\<open>bouguer_correction\<close>, which reads \<^verbatim>\<open>topography.shape\<close>: on the
  Python float 5.0, with the default densities, the call ends in AttributeError, in
  either model.
\<close>

theorem bouguer_correction_scalar_raises:
  "bouguer_correction 0.00000000006673 (PyFloat (Some 5)) density_crust_default
     density_water_default = Inl AttributeError
   \<and> bouguer_correction_call 0.00000000006673 [] (FloatObj (Finite 5))
       density_crust_default density_water_default = Inl AttributeError"
  by (simp add: bouguer_correction_def bouguer_correction_call_def)

text \<open>
  Claim C6, amended. \<^verbatim>\<open>bouguer_correction\<close> accepts an array, with scalar densities, and
  returns a new array of the same shape, every array that existed before the call being
  unchanged; on a plain Python float it raises AttributeError.
  \<^verbatim>\<open>atmospheric_correction\<close> and \<^verbatim>\<open>spherical_bouguer_cap_correction\<close> accept an array
  and return a new array of the same shape, every array that existed before being
  unchanged. They accept a plain Python float and return a float, the memory being
  unchanged, unless a power in the body overflows, when they raise OverflowError:
  \<^verbatim>\<open>topography**2\<close> in \<^verbatim>\<open>atmospheric_correction\<close>, \<^verbatim>\<open>topography**4\<close>, in the dropped
  expression, in \<^verbatim>\<open>spherical_bouguer_cap_correction\<close>. Every float of magnitude at most
  \<open>1e77\<close> is accepted by both.
\<close>

theorem correction_calls_accepted_inputs:
  assumes "a < length h"
  shows "(\<exists>h' r. bouguer_correction_call G h (ArrayObj a) density_crust density_water
                   = Inr (h', ArrayObj r)
                \<and> take (length h) h' = h \<and> length h \<le> r \<and> r < length h'
                \<and> length (h' ! r) = length (h ! a))
       \<and> bouguer_correction_call G h (FloatObj x) density_crust density_water
           = Inl AttributeError
       \<and> (\<exists>h' r. atmospheric_correction_call h (ArrayObj a) = Inr (h', ArrayObj r)
                \<and> take (length h) h' = h \<and> length h \<le> r \<and> r < length h'
                \<and> length (h' ! r) = length (h ! a))
       \<and> (pow_overflows x 2 \<longrightarrow>
             atmospheric_correction_call h (FloatObj x) = Inl OverflowError)
       \<and> (\<not> pow_overflows x 2 \<longrightarrow>
             (\<exists>y. atmospheric_correction_call h (FloatObj x) = Inr (h, FloatObj y)))
       \<and> (\<exists>h' r. spherical_bouguer_cap_correction_call h (ArrayObj a) = Inr (h', ArrayObj r)
                \<and> take (length h) h' = h \<and> length h \<le> r \<and> r < length h'
                \<and> length (h' ! r) = length (h ! a))
       \<and> (pow_overflows x 4 \<longrightarrow>
             spherical_bouguer_cap_correction_call h (FloatObj x) = Inl OverflowError)
       \<and> (\<not> pow_overflows x 4 \<longrightarrow>
             (\<exists>y. spherical_bouguer_cap_correction_call h (FloatObj x)
                    = Inr (h, FloatObj y)))
       \<and> (\<bar>v\<bar> \<le> 10 ^ 77 \<longrightarrow>
             (\<exists>y. atmospheric_correction_call h (FloatObj (Finite v))
                    = Inr (h, FloatObj y))
           \<and> (\<exists>y. spherical_bouguer_cap_correction_call h (FloatObj (Finite v))
                    = Inr (h, FloatObj y)))"
proof (intro conjI impI)
  show "\<exists>h' r. bouguer_correction_call G h (ArrayObj a) density_crust density_water
                   = Inr (h', ArrayObj r)
                \<and> take (length h) h' = h \<and> length h \<le> r \<and> r < length h'
                \<and> length (h' ! r) = length (h ! a)"
    using assms by (simp add: bouguer_correction_call_array nth_append_two)
  show "bouguer_correction_call G h (FloatObj x) density_crust density_water
           = Inl AttributeError"
    by (simp add: bouguer_correction_call_def)
  show "\<exists>h' r. atmospheric_correction_call h (ArrayObj a) = Inr (h', ArrayObj r)
                \<and> take (length h) h' = h \<and> length h \<le> r \<and> r < length h'
                \<and> length (h' ! r) = length (h ! a)"
    by (simp add: atmospheric_correction_call_array)
  show "\<exists>h' r. spherical_bouguer_cap_correction_call h (ArrayObj a) = Inr (h', ArrayObj r)
                \<and> take (length h) h' = h \<and> length h \<le> r \<and> r < length h'
                \<and> length (h' ! r) = length (h ! a)"
    by (simp add: spherical_call_array)
next
  assume "pow_overflows x 2"
  then show "atmospheric_correction_call h (FloatObj x) = Inl OverflowError"
    by (simp add: atmospheric_correction_call_float)
next
  assume "\<not> pow_overflows x 2"
  then show "\<exists>y. atmospheric_correction_call h (FloatObj x) = Inr (h, FloatObj y)"
    by (simp add: atmospheric_correction_call_float)
next
  assume "pow_overflows x 4"
  then show "spherical_bouguer_cap_correction_call h (FloatObj x) = Inl OverflowError"
    by (simp add: spherical_call_float)
next
  assume "\<not> pow_overflows x 4"
  then show "\<exists>y. spherical_bouguer_cap_correction_call h (FloatObj x) = Inr (h, FloatObj y)"
    by (simp add: spherical_call_float)
next
  assume v: "\<bar>v\<bar> \<le> 10 ^ 77"
  show "\<exists>y. atmospheric_correction_call h (FloatObj (Finite v)) = Inr (h, FloatObj y)"
    using in_float_range(2) [OF v] by (simp add: atmospheric_correction_call_float)
  show "\<exists>y. spherical_bouguer_cap_correction_call h (FloatObj (Finite v))
              = Inr (h, FloatObj y)"
    using in_float_range(1) [OF v] by (simp add: spherical_call_float)
qed

text \<open>
  The theorem at the memory that holds the one array \<open>[100, 0, -200]\<close>, and at the Python
  floats \<open>1e155\<close>, \<open>1e80\<close> and \<open>1000\<close>.
\<close>

theorem correction_calls_accepted_inputs_witness:
  "(0::nat) < length [[Finite 100, Finite 0, Finite (- 200)]]
   \<and> (\<exists>h' r. bouguer_correction_call 0.00000000006673
                  [[Finite 100, Finite 0, Finite (- 200)]] (ArrayObj 0) 2670 1040
                = Inr (h', ArrayObj r)
              \<and> take 1 h' = [[Finite 100, Finite 0, Finite (- 200)]]
              \<and> 1 \<le> r \<and> r < length h' \<and> length (h' ! r) = 3)
   \<and> atmospheric_correction_call [[Finite 100, Finite 0, Finite (- 200)]]
         (FloatObj (Finite (10 ^ 155))) = Inl OverflowError
   \<and> spherical_bouguer_cap_correction_call [[Finite 100, Finite 0, Finite (- 200)]]
         (FloatObj (Finite (10 ^ 80))) = Inl OverflowError
   \<and> (\<exists>y. atmospheric_correction_call [[Finite 100, Finite 0, Finite (- 200)]]
              (FloatObj (Finite 1000))
            = Inr ([[Finite 100, Finite 0, Finite (- 200)]], FloatObj y))"
proof -
  let ?h = "[[Finite 100, Finite 0, Finite (- 200)]]"
  have a: "(0::nat) < length ?h" by simp
  have big: "pow_overflows (Finite (10 ^ 155)) 2" "pow_overflows (Finite (10 ^ 80)) 4"
    by (simp_all add: pow_overflows_def overflows_def)
  have small: "\<bar>1000::real\<bar> \<le> 10 ^ 77" by simp
  note at_155 = correction_calls_accepted_inputs
    [OF a, of "0.00000000006673" 2670 1040 "Finite (10 ^ 155)" 1000]
  note at_80 = correction_calls_accepted_inputs
    [OF a, of "0.00000000006673" 2670 1040 "Finite (10 ^ 80)" 1000]
  from at_155 have
    "\<exists>h' r. bouguer_correction_call 0.00000000006673 ?h (ArrayObj 0) 2670 1040
                = Inr (h', ArrayObj r)
              \<and> take (length ?h) h' = ?h \<and> length ?h \<le> r \<and> r < length h'
              \<and> length (h' ! r) = length (?h ! 0)"
    by blast
  moreover from at_155 big(1) have
    "atmospheric_correction_call ?h (FloatObj (Finite (10 ^ 155))) = Inl OverflowError"
    by blast
  moreover from at_80 big(2) have
    "spherical_bouguer_cap_correction_call ?h (FloatObj (Finite (10 ^ 80)))
       = Inl OverflowError"
    by blast
  moreover from at_155 small have
    "\<exists>y. atmospheric_correction_call ?h (FloatObj (Finite 1000)) = Inr (?h, FloatObj y)"
    by blast
  ultimately show ?thesis by (simp add: numeral_3_eq_3)
qed

text \<open>
  Claim C7. For every configuration of point sources and observation points, negating
  every mass negates every element of the field that \<^verbatim>\<open>point_mass_gravity\<close> returns,
  exactly; a configuration that is refused is refused with the same error.
\<close>

theorem point_mass_gravity_negated_masses:
  "point_mass_gravity G coordinates points (map uminus masses)
   = (case point_mass_gravity G coordinates points masses of
        Inl e \<Rightarrow> Inl e
      | Inr field \<Rightarrow> Inr (map uminus field))"
  by (simp add: point_mass_gravity_def Let_def o_def
      sum_list_minus_masses [of "g_z_term G _", OF g_z_term_minus])

text \<open>
  The theorem at one source of mass 8 two units below the one observation point, with
  \<open>G = 1\<close>: the field is 2, and -2 for the mass -8.
\<close>

theorem point_mass_gravity_negated_masses_witness:
  "point_mass_gravity 1 ([0], [0], [0]) ([0], [0], [- 2]) [8] = Inr [2]
   \<and> point_mass_gravity 1 ([0], [0], [0]) ([0], [0], [- 2]) [- 8] = Inr [- 2]"
proof -
  have field: "point_mass_gravity 1 ([0], [0], [0]) ([0], [0], [- 2]) [8] = Inr [2]"
    by (simp add: point_mass_gravity_def points_of_def co_indexed_def distance_def
        g_z_term_def)
  with point_mass_gravity_negated_masses [of 1 "([0], [0], [0])" "([0], [0], [- 2])" "[8]"]
  show ?thesis by simp
qed

text \<open>
  Claim C8, as stated: for every topography array without NaN the returned array
  contains no NaN. It fails for an infinite topography value over a density of 0: the
  array \<open>[+\<infinity>]\<close> contains no NaN, the continent mask selects its element, the density
  array becomes \<open>[0]\<close> for \<open>density_crust = 0\<close>, and the product \<open>0 \<cdot> \<infinity>\<close> is NaN. The
  memory after the call holds the topography, the density array and the returned array.
\<close>

theorem bouguer_call_nan_from_infinity:
  "NaN \<notin> set [PosInf]
   \<and> bouguer_correction_call 0.00000000006673 [[PosInf]] (ArrayObj 0) 0
       density_water_default
     = Inr ([[PosInf], [Finite 0], [NaN]], ArrayObj 2)"
  by (simp add: bouguer_correction_call_array signed_inf_def)

text \<open>
  Claim C8, amended. For every topography array, the ocean mask (\<open>topography < 0\<close>) and
  the continent mask (its negation) have the shape of the array and partition its
  indices, so every element of the NaN-initialised density array is overwritten before
  use: with the two densities finite numbers, the density array, allocated at the first
  free address, has the shape of the topography and contains no NaN. Every element of
  the returned array whose topography value is finite, neither NaN nor an infinity, is
  not NaN; so the array returned for a topography of finite values contains no NaN.
\<close>

theorem bouguer_call_masks_partition:
  assumes "a < length h"
  shows "length (oceans_mask64 (h ! a)) = length (h ! a)
       \<and> length (continent_mask64 (h ! a)) = length (h ! a)
       \<and> (\<forall>i<length (h ! a).
             continent_mask64 (h ! a) ! i = (\<not> oceans_mask64 (h ! a) ! i))
       \<and> (\<exists>h' r. bouguer_correction_call G h (ArrayObj a) density_crust density_water
                    = Inr (h', ArrayObj r)
                \<and> length (h' ! length h) = length (h ! a)
                \<and> NaN \<notin> set (h' ! length h)
                \<and> length (h' ! r) = length (h ! a)
                \<and> (\<forall>i<length (h ! a). is_finite (h ! a ! i) \<longrightarrow> h' ! r ! i \<noteq> NaN))"
  using assms
  by (auto simp add: length_oceans_mask64 length_continent_mask64 nth_continent_mask64
      bouguer_correction_call_array finite_product_not_nan nth_append_two
      simp del: f_mul.simps)

text \<open>
  The theorem at the memory that holds the one array \<open>[100, 0, -200]\<close>, with the default
  densities and \<open>G = 6.673e-11\<close>.
\<close>

theorem bouguer_call_masks_partition_witness:
  "(0::nat) < length [[Finite 100, Finite 0, Finite (- 200)]]
   \<and> (\<exists>h' r. bouguer_correction_call 0.00000000006673
                  [[Finite 100, Finite 0, Finite (- 200)]] (ArrayObj 0) 2670 1040
                = Inr (h', ArrayObj r)
              \<and> NaN \<notin> set (h' ! 1) \<and> length (h' ! r) = 3
              \<and> h' ! r ! 0 \<noteq> NaN \<and> h' ! r ! 1 \<noteq> NaN \<and> h' ! r ! 2 \<noteq> NaN)"
proof -
  let ?h = "[[Finite 100, Finite 0, Finite (- 200)]]"
  have a: "(0::nat) < length ?h" by simp
  from bouguer_call_masks_partition [OF a, of "0.00000000006673" 2670 1040]
  obtain h' r where
    call: "bouguer_correction_call 0.00000000006673 ?h (ArrayObj 0) 2670 1040
             = Inr (h', ArrayObj r)"
    and density: "NaN \<notin> set (h' ! length ?h)"
    and len: "length (h' ! r) = length (?h ! 0)"
    and finite: "\<forall>i<length (?h ! 0). is_finite (?h ! 0 ! i) \<longrightarrow> h' ! r ! i \<noteq> NaN"
    by blast
  from finite have "h' ! r ! 0 \<noteq> NaN" "h' ! r ! 1 \<noteq> NaN" "h' ! r ! 2 \<noteq> NaN"
    by (simp_all add: nth_Cons')
  with call density len show ?thesis by simp
qed

text \<open>
  Claim C9. For a positive gravitational constant and densities with
  \<open>density_crust > density_water \<ge> 0\<close>, the Bouguer correction is one function \<open>f\<close> of
  each topography value, and \<open>h1 \<le> h2\<close> gives \<open>f h1 \<le> f h2\<close>: the land branch has the
  slope \<open>2\<pi>G \<cdot> density_crust\<close> and the ocean branch the slope
  \<open>2\<pi>G \<cdot> (density_crust - density_water)\<close> (both times \<open>1e5\<close>, the conversion to mGal),
  both are positive, and the branches agree, with value 0, at \<open>h = 0\<close>; so \<open>f\<close> is
  monotone and continuous.
\<close>

theorem bouguer_correction_monotone_continuous:
  assumes "0 < G" and "0 \<le> density_water" and "density_water < density_crust"
  shows "\<exists>f. (\<forall>hs. bouguer_correction G (NDArray (map Some hs)) density_crust density_water
                     = Inr (NDArray (map (\<lambda>h. Some (f h)) hs)))
            \<and> (\<forall>h1 h2. h1 \<le> h2 \<longrightarrow> f h1 \<le> f h2)
            \<and> continuous_on UNIV f
            \<and> f 0 = 0
            \<and> (\<forall>h\<ge>0. f h = 100000 * (2 * pi * G * density_crust) * h)
            \<and> (\<forall>h<0. f h = 100000 * (2 * pi * G * (density_crust - density_water)) * h)
            \<and> 0 < 2 * pi * G * density_crust
            \<and> 0 < 2 * pi * G * (density_crust - density_water)"
proof -
  let ?a = "100000 * (2 * pi * G * (density_crust - density_water))"
  let ?b = "100000 * (2 * pi * G * density_crust)"
  let ?f = "\<lambda>h. if h < 0 then ?a * h else ?b * h"
  have pos: "0 < 2 * pi * G * density_crust"
    "0 < 2 * pi * G * (density_crust - density_water)"
    using assms by simp_all
  then have nonneg: "0 \<le> ?a" "0 \<le> ?b" by simp_all
  have code: "\<forall>hs. bouguer_correction G (NDArray (map Some hs)) density_crust density_water
                     = Inr (NDArray (map (\<lambda>h. Some (?f h)) hs))"
    by (simp only: bouguer_correction_reals) simp
  have mono: "\<forall>h1 h2. h1 \<le> h2 \<longrightarrow> ?f h1 \<le> ?f h2"
    using piecewise_linear_mono [OF nonneg] by blast
  have cont: "continuous_on UNIV ?f"
    by (rule piecewise_linear_continuous)
  have zero: "?f 0 = 0" by simp
  have land: "\<forall>h\<ge>0. ?f h = ?b * h" by simp
  have ocean: "\<forall>h<0. ?f h = ?a * h" by simp
  show ?thesis
    by (rule exI [where x = ?f]) (intro conjI code mono cont zero land ocean pos)
qed

text \<open>
  The theorem at \<open>G = 6.673e-11\<close> and the default densities, for the ocean depth -200
  and the land height 100.
\<close>

theorem bouguer_correction_monotone_continuous_witness:
  "(0::real) < 0.00000000006673 \<and> (0::real) \<le> 1040 \<and> (1040::real) < 2670
   \<and> (\<exists>b1 b2.
         bouguer_correction 0.00000000006673 (NDArray [Some (- 200), Some 100]) 2670 1040
           = Inr (NDArray [Some b1, Some b2])
         \<and> b1 \<le> b2)"
proof -
  have G: "(0::real) < 0.00000000006673" and w: "(0::real) \<le> 1040"
    and c: "(1040::real) < 2670"
    by simp_all
  from bouguer_correction_monotone_continuous [OF G w c] obtain f where
    code: "\<And>hs. bouguer_correction 0.00000000006673 (NDArray (map Some hs)) 2670 1040
                 = Inr (NDArray (map (\<lambda>h. Some (f h)) hs))"
    and mono: "\<And>h1 h2. h1 \<le> h2 \<Longrightarrow> f h1 \<le> f h2"
    by blast
  from code [of "[- 200, 100]"] mono [of "- 200" 100]
  have "bouguer_correction 0.00000000006673 (NDArray [Some (- 200), Some 100]) 2670 1040
          = Inr (NDArray [Some (f (- 200)), Some (f 100)]) \<and> f (- 200) \<le> f 100"
    by simp
  with G w c show ?thesis by blast
qed

end
